theory Spec2Isabelle
  imports Main
begin

section \<open>Python values used by \<open>fast_calvo_trainer.py\<close>\<close>

text \<open>
  Every exception the wrapper can meet is a value.  \<open>Raised\<close> stands for whatever the
  external trainer raises; the others are raised by the wrapper's own subscripting, by
  numpy's broadcasting and by \<open>logging.FileHandler\<close>.
\<close>

datatype exn =
    KeyError string
  | IndexError
  | TypeError
  | ValueError
  | OSError string
  | Raised string

definition then_do :: "exn + 'a \<Rightarrow> ('a \<Rightarrow> exn + 'b) \<Rightarrow> exn + 'b" where
  "then_do m f = (case m of Inl e \<Rightarrow> Inl e | Inr x \<Rightarrow> f x)"

text \<open>A Python dict keeps its keys in insertion order: an association list.\<close>

type_synonym ('k, 'v) dict = "('k \<times> 'v) list"

definition keys :: "('k, 'v) dict \<Rightarrow> 'k list" where
  "keys d = map fst d"

text \<open>\<open>d[k]\<close>: the value, or \<open>KeyError\<close>.\<close>

definition dict_get :: "(string, 'v) dict \<Rightarrow> string \<Rightarrow> exn + 'v" where
  "dict_get d k = (case map_of d k of None \<Rightarrow> Inl (KeyError k) | Some v \<Rightarrow> Inr v)"

text \<open>\<open>d[k] = v\<close>: an existing key keeps its place, a new key goes last.\<close>

fun dict_set :: "('k, 'v) dict \<Rightarrow> 'k \<Rightarrow> 'v \<Rightarrow> ('k, 'v) dict" where
  "dict_set [] k v = [(k, v)]"
| "dict_set ((k', v') # d) k v =
     (if k' = k then (k, v) # d else (k', v') # dict_set d k v)"

text \<open>\<open>xs[0]\<close>: the first element, or \<open>IndexError\<close>.\<close>

fun first :: "'a list \<Rightarrow> exn + 'a" where
  "first [] = Inl IndexError"
| "first (x # xs) = Inr x"

text \<open>
  The host passes \<open>inputs\<close> and \<open>outputs\<close> as dicts from a port name to a list of
  resources, each resource a dict with a \<open>'resource_path'\<close> entry.
\<close>

type_synonym resource = "(string, string) dict"
type_synonym ports = "(string, resource list) dict"

text \<open>\<open>ports[k][0]['resource_path']\<close>\<close>

definition resource_path :: "ports \<Rightarrow> string \<Rightarrow> exn + string" where
  "resource_path ps k =
     then_do (dict_get ps k) (\<lambda>rs.
     then_do (first rs) (\<lambda>r.
     dict_get r ''resource_path''))"


section \<open>Images and masks\<close>

text \<open>
  What \<open>cv2.imread\<close> returns: \<open>None\<close> when the file cannot be decoded, otherwise an
  array of shape \<open>(rows, cols)\<close> (\<open>channels = None\<close>) or \<open>(rows, cols, c)\<close>.  Samples are
  naturals, which covers 8-bit and 16-bit images; the wrapper only compares them.
\<close>

record ndarray =
  rows :: nat
  cols :: nat
  channels :: "nat option"
  sample :: "nat \<Rightarrow> nat \<Rightarrow> nat \<Rightarrow> nat"

record mask =
  mrows :: nat
  mcols :: nat
  mat :: "nat \<Rightarrow> nat \<Rightarrow> bool"

text \<open>
  \<open>layer[:, :, 3] == 255\<close>.  Subscripting \<open>None\<close> is a \<open>TypeError\<close>; three indices on a
  two-dimensional array, or channel 3 of an array with at most three channels, is an
  \<open>IndexError\<close>.
\<close>

definition alpha_opaque :: "ndarray option \<Rightarrow> exn + mask" where
  "alpha_opaque layer =
     (case layer of
        None \<Rightarrow> Inl TypeError
      | Some a \<Rightarrow>
          (case channels a of
             None \<Rightarrow> Inl IndexError
           | Some c \<Rightarrow>
               if c \<le> 3 then Inl IndexError
               else Inr \<lparr>mrows = rows a, mcols = cols a,
                         mat = (\<lambda>i j. sample a i j 3 = 255)\<rparr>))"

text \<open>
  numpy's broadcasting of one axis: equal lengths agree, a length of 1 stretches to the
  other, anything else is rejected.
\<close>

definition broadcast_dim :: "nat \<Rightarrow> nat \<Rightarrow> nat option" where
  "broadcast_dim a b =
     (if a = b then Some a
      else if a = 1 then Some b
      else if b = 1 then Some a
      else None)"

text \<open>The index read along an axis of length \<open>n\<close> once it is broadcast.\<close>

definition bidx :: "nat \<Rightarrow> nat \<Rightarrow> nat" where
  "bidx n i = (if n = 1 then 0 else i)"

definition mat_bc :: "mask \<Rightarrow> nat \<Rightarrow> nat \<Rightarrow> bool" where
  "mat_bc m i j = mat m (bidx (mrows m) i) (bidx (mcols m) j)"

text \<open>\<open>np.logical_and(a, b)\<close> on two-dimensional boolean arrays.\<close>

definition logical_and :: "mask \<Rightarrow> mask \<Rightarrow> exn + mask" where
  "logical_and a b =
     (case broadcast_dim (mrows a) (mrows b) of
        None \<Rightarrow> Inl ValueError
      | Some h \<Rightarrow>
          (case broadcast_dim (mcols a) (mcols b) of
             None \<Rightarrow> Inl ValueError
           | Some w \<Rightarrow>
               Inr \<lparr>mrows = h, mcols = w,
                    mat = (\<lambda>i j. mat_bc a i j \<and> mat_bc b i j)\<rparr>))"


section \<open>The process and its environment\<close>

text \<open>
  The process-wide state the wrapper touches: the two stream bindings of \<open>sys\<close>, the
  handler list of the module's logger, and what has been printed (with the stream that
  received it).
\<close>

datatype stream = Std string | LoggingProxy string

datatype handler = FileHandler string string | Handler string

record proc =
  sys_stdout :: stream
  sys_stderr :: stream
  handlers :: "handler list"
  printed :: "(stream \<times> string) list"

datatype imread_flag = IMREAD_COLOR | IMREAD_UNCHANGED

text \<open>
  What the wrapper reads from outside: the decoder, whether a log file can be opened, and
  the redirect level of the celery configuration.
\<close>

record env =
  imread :: "string \<Rightarrow> imread_flag \<Rightarrow> ndarray option"
  can_open :: "string \<Rightarrow> bool"
  CELERY_REDIRECT_STDOUTS_LEVEL :: string

text \<open>The keyword arguments of \<open>training.train_msae\<close>.\<close>

record train_args =
  input_image :: "ndarray option"
  gt :: "(string, mask) dict"
  height :: int
  width :: int
  output_path :: "(string, string) dict"
  epochs :: int
  max_samples_per_class :: int
  batch_size :: int

text \<open>
  The external trainer is a parameter: from its arguments and the process state to a
  returned status or a raised exception, and the process state it leaves.
\<close>

type_synonym 's trainer = "train_args \<Rightarrow> proc \<Rightarrow> (exn + 's) \<times> proc"


section \<open>\<open>run_my_task\<close>\<close>

text \<open>
  Lines 86-91: when the \<open>'Log File'\<close> list is not empty, a file handler on its first
  resource is created (which opens the file) and added to the logger.
\<close>

definition log_format :: string where
  "log_format = ''%(asctime)s - %(name)s - %(message)s''"

definition attach_log_handler :: "env \<Rightarrow> ports \<Rightarrow> proc \<Rightarrow> exn + proc" where
  "attach_log_handler e outputs st =
     then_do (dict_get outputs ''Log File'') (\<lambda>lf.
       if length lf > 0 then
         then_do (first lf) (\<lambda>r.
         then_do (dict_get r ''resource_path'') (\<lambda>p.
           if can_open e p
           then Inr (st\<lparr>handlers := handlers st @ [FileHandler p log_format]\<rparr>)
           else Inl (OSError p)))
       else Inr st)"

text \<open>Line 94: both streams become a proxy writing to the logger.\<close>

definition redirect_stdouts_to_logger :: "string \<Rightarrow> proc \<Rightarrow> proc" where
  "redirect_stdouts_to_logger rlevel st =
     st\<lparr>sys_stdout := LoggingProxy rlevel, sys_stderr := LoggingProxy rlevel\<rparr>"

definition print_line :: "string \<Rightarrow> proc \<Rightarrow> proc" where
  "print_line s st = st\<lparr>printed := printed st @ [(sys_stdout st, s)]\<rparr>"

text \<open>A layer read from a port and thresholded on its alpha channel.\<close>

definition layer_mask :: "env \<Rightarrow> ports \<Rightarrow> string \<Rightarrow> exn + mask" where
  "layer_mask e inputs port =
     then_do (resource_path inputs port) (\<lambda>p.
     alpha_opaque (imread e p IMREAD_UNCHANGED))"

text \<open>Lines 122-130: one round of the loop over the keys of \<open>inputs\<close>.\<close>

definition optional_layer ::
  "env \<Rightarrow> ports \<Rightarrow> mask \<Rightarrow> string \<Rightarrow> (string, mask) dict \<Rightarrow> exn + (string, mask) dict"
where
  "optional_layer e inputs regions_mask k g =
     then_do
       (if k = ''rgba PNG - Staff Lines layer'' then
          then_do (layer_mask e inputs ''rgba PNG - Staff Lines layer'') (\<lambda>lines_mask.
          then_do (logical_and lines_mask regions_mask) (\<lambda>m.
          Inr (dict_set g ''staff'' m)))
        else Inr g)
       (\<lambda>g1.
          if k = ''rgba PNG - Text'' then
            then_do (layer_mask e inputs ''rgba PNG - Text'') (\<lambda>text_mask.
            then_do (logical_and text_mask regions_mask) (\<lambda>m.
            Inr (dict_set g1 ''text'' m)))
          else Inr g1)"

fun optional_layers ::
  "env \<Rightarrow> ports \<Rightarrow> mask \<Rightarrow> string list \<Rightarrow> (string, mask) dict \<Rightarrow> exn + (string, mask) dict"
where
  "optional_layers e inputs regions_mask [] g = Inr g"
| "optional_layers e inputs regions_mask (k # ks) g =
     (case optional_layer e inputs regions_mask k g of
        Inl err \<Rightarrow> Inl err
      | Inr g' \<Rightarrow> optional_layers e inputs regions_mask ks g')"

text \<open>Lines 132-136: one round of the loop over the keys of \<open>outputs\<close>.\<close>

definition optional_output ::
  "ports \<Rightarrow> string \<Rightarrow> (string, string) dict \<Rightarrow> exn + (string, string) dict"
where
  "optional_output outputs k paths =
     then_do
       (if k = ''Staff Lines Model'' then
          then_do (resource_path outputs ''Staff Lines Model'') (\<lambda>p.
          Inr (dict_set paths ''staff'' p))
        else Inr paths)
       (\<lambda>paths1.
          if k = ''Text Model'' then
            then_do (resource_path outputs ''Text Model'') (\<lambda>p.
            Inr (dict_set paths1 ''text'' p))
          else Inr paths1)"

fun optional_outputs ::
  "ports \<Rightarrow> string list \<Rightarrow> (string, string) dict \<Rightarrow> exn + (string, string) dict"
where
  "optional_outputs outputs [] paths = Inr paths"
| "optional_outputs outputs (k # ks) paths =
     (case optional_output outputs k paths of
        Inl err \<Rightarrow> Inl err
      | Inr paths' \<Rightarrow> optional_outputs outputs ks paths')"

text \<open>
  Lines 97-136, in the order of the source: the four reads, the masks of the required
  classes, the settings, the required output paths, the optional layers, the optional
  output paths.  The value is the argument record of the trainer call.
\<close>

definition prepare_call ::
  "env \<Rightarrow> ports \<Rightarrow> (string, int) dict \<Rightarrow> ports \<Rightarrow> exn + train_args"
where
  "prepare_call e inputs settings outputs =
     then_do (resource_path inputs ''Image'') (\<lambda>p_image.
     then_do (resource_path inputs ''rgba PNG - Background layer'') (\<lambda>p_background.
     then_do (resource_path inputs ''rgba PNG - Music symbol layer'') (\<lambda>p_notes.
     then_do (resource_path inputs ''rgba PNG - Selected regions'') (\<lambda>p_regions.
     then_do (alpha_opaque (imread e p_regions IMREAD_UNCHANGED)) (\<lambda>regions_mask.
     then_do (alpha_opaque (imread e p_notes IMREAD_UNCHANGED)) (\<lambda>notes_mask.
     then_do (logical_and notes_mask regions_mask) (\<lambda>symbols.
     then_do (alpha_opaque (imread e p_background IMREAD_UNCHANGED)) (\<lambda>background.
     then_do (dict_get settings ''Batch Size'') (\<lambda>batch.
     then_do (dict_get settings ''Patch height'') (\<lambda>patch_height.
     then_do (dict_get settings ''Patch width'') (\<lambda>patch_width.
     then_do (dict_get settings ''Maximum number of training epochs'') (\<lambda>max_epochs.
     then_do (dict_get settings ''Maximum number of samples per label'') (\<lambda>max_samples.
     then_do (resource_path outputs ''Background Model'') (\<lambda>p_bg_model.
     then_do (resource_path outputs ''Music Symbol Model'') (\<lambda>p_sym_model.
     then_do (optional_layers e inputs regions_mask (keys inputs)
                (dict_set (dict_set [] ''symbols'' symbols) ''background'' background)) (\<lambda>g.
     then_do (optional_outputs outputs (keys outputs)
                [(''background'', p_bg_model), (''symbols'', p_sym_model)]) (\<lambda>paths.
     Inr \<lparr>input_image = imread e p_image IMREAD_COLOR,
          gt = g,
          height = patch_height,
          width = patch_width,
          output_path = paths,
          epochs = max_epochs,
          max_samples_per_class = max_samples,
          batch_size = batch\<rparr>)))))))))))))))))"

text \<open>
  Lines 93-151, the body of the \<open>try\<close>: redirect, prepare, call the trainer, print,
  return \<open>True\<close>.  The third component lists the trainer calls made, each with the
  process state it was made in.
\<close>

definition task_body ::
  "env \<Rightarrow> 's trainer \<Rightarrow> ports \<Rightarrow> (string, int) dict \<Rightarrow> ports \<Rightarrow> proc
     \<Rightarrow> (exn + bool) \<times> proc \<times> (train_args \<times> proc) list"
where
  "task_body e train_msae inputs settings outputs st =
     (let st1 = redirect_stdouts_to_logger (CELERY_REDIRECT_STDOUTS_LEVEL e) st in
      case prepare_call e inputs settings outputs of
        Inl err \<Rightarrow> (Inl err, st1, [])
      | Inr args \<Rightarrow>
          (case train_msae args st1 of
             (Inl err, st2) \<Rightarrow> (Inl err, st2, [(args, st1)])
           | (Inr status, st2) \<Rightarrow>
               (Inr True, print_line ''Finishing the Fast CM trainer job.'' st2,
                [(args, st1)])))"

text \<open>
  Lines 84-153: the streams are saved, the log handler is attached outside the \<open>try\<close>,
  and the \<open>finally\<close> clause puts the saved streams back.
\<close>

definition run_my_task ::
  "env \<Rightarrow> 's trainer \<Rightarrow> ports \<Rightarrow> (string, int) dict \<Rightarrow> ports \<Rightarrow> proc
     \<Rightarrow> (exn + bool) \<times> proc \<times> (train_args \<times> proc) list"
where
  "run_my_task e train_msae inputs settings outputs st =
     (let oldouts = (sys_stdout st, sys_stderr st) in
      case attach_log_handler e outputs st of
        Inl err \<Rightarrow> (Inl err, st, [])
      | Inr st1 \<Rightarrow>
          (case task_body e train_msae inputs settings outputs st1 of
             (r, st2, calls) \<Rightarrow>
               (r, st2\<lparr>sys_stdout := fst oldouts, sys_stderr := snd oldouts\<rparr>, calls)))"


section \<open>Concrete invocations\<close>

text \<open>
  A small world for evaluating the wrapper: the base image is 1 by 1 with three channels,
  every annotation layer is 2 by 2, fully opaque, with four channels, except
  \<open>wide.png\<close>, which is 2 by 3; \<open>/ro/train.log\<close> cannot be opened.
\<close>

definition solid :: "nat \<Rightarrow> nat \<Rightarrow> nat \<Rightarrow> nat \<Rightarrow> ndarray" where
  "solid h w c v = \<lparr>rows = h, cols = w, channels = Some c, sample = (\<lambda>i j k. v)\<rparr>"

definition ex_env :: env where
  "ex_env =
     \<lparr>imread = (\<lambda>p flag.
         if p = ''image.png'' then Some (solid 1 1 3 0)
         else if p = ''wide.png'' then Some (solid 2 3 4 255)
         else Some (solid 2 2 4 255)),
      can_open = (\<lambda>p. p \<noteq> ''/ro/train.log''),
      CELERY_REDIRECT_STDOUTS_LEVEL = ''WARNING''\<rparr>"

definition at_path :: "string \<Rightarrow> resource list" where
  "at_path p = [[(''resource_path'', p)]]"

definition ex_inputs :: ports where
  "ex_inputs =
     [(''Image'', at_path ''image.png''),
      (''rgba PNG - Background layer'', at_path ''background.png''),
      (''rgba PNG - Music symbol layer'', at_path ''symbols.png''),
      (''rgba PNG - Selected regions'', at_path ''regions.png'')]"

definition ex_inputs_staff :: ports where
  "ex_inputs_staff = ex_inputs @ [(''rgba PNG - Staff Lines layer'', at_path ''staff.png'')]"

definition ex_inputs_text :: ports where
  "ex_inputs_text = ex_inputs @ [(''rgba PNG - Text'', at_path ''text.png'')]"

definition ex_inputs_wide :: ports where
  "ex_inputs_wide =
     [(''Image'', at_path ''image.png''),
      (''rgba PNG - Background layer'', at_path ''background.png''),
      (''rgba PNG - Music symbol layer'', at_path ''wide.png''),
      (''rgba PNG - Selected regions'', at_path ''regions.png'')]"


definition ex_outputs :: ports where
  "ex_outputs =
     [(''Background Model'', at_path ''background.hdf5''),
      (''Music Symbol Model'', at_path ''symbols.hdf5''),
      (''Log File'', at_path ''/tmp/train.log'')]"

definition ex_outputs_nolog :: ports where
  "ex_outputs_nolog =
     [(''Background Model'', at_path ''background.hdf5''),
      (''Music Symbol Model'', at_path ''symbols.hdf5''),
      (''Log File'', [])]"

definition ex_outputs_rolog :: ports where
  "ex_outputs_rolog =
     [(''Background Model'', at_path ''background.hdf5''),
      (''Music Symbol Model'', at_path ''symbols.hdf5''),
      (''Log File'', at_path ''/ro/train.log'')]"

definition ex_settings :: "(string, int) dict" where
  "ex_settings =
     [(''Batch Size'', 16),
      (''Maximum number of training epochs'', 15),
      (''Maximum number of samples per label'', 2000),
      (''Patch height'', 256),
      (''Patch width'', 256)]"

definition ex_proc :: proc where
  "ex_proc = \<lparr>sys_stdout = Std ''stdout'', sys_stderr = Std ''stderr'',
              handlers = [], printed = []\<rparr>"

text \<open>Three trainers: one reports success, one reports failure, one raises.\<close>

definition trainer_ok :: "bool trainer" where
  "trainer_ok args st = (Inr True, st)"

definition trainer_failed :: "bool trainer" where
  "trainer_failed args st = (Inr False, st)"

definition trainer_raises :: "bool trainer" where
  "trainer_raises args st = (Inl (Raised ''out of memory''), st)"

text \<open>
  A second world with layers that are not opaque everywhere: the symbols layer is opaque
  in its first row, the regions layer in its first column, and \<open>row.png\<close> is a single
  opaque row of two pixels.
\<close>

definition opaque_where :: "nat \<Rightarrow> nat \<Rightarrow> (nat \<Rightarrow> nat \<Rightarrow> bool) \<Rightarrow> ndarray" where
  "opaque_where h w f =
     \<lparr>rows = h, cols = w, channels = Some 4,
      sample = (\<lambda>i j k. if k = 3 \<and> f i j then 255 else 0)\<rparr>"

definition ex_env_marked :: env where
  "ex_env_marked =
     \<lparr>imread = (\<lambda>p flag.
         if p = ''image.png'' then Some (solid 1 1 3 0)
         else if p = ''symbols.png'' then Some (opaque_where 2 2 (\<lambda>i j. i = 0))
         else if p = ''regions.png'' then Some (opaque_where 2 2 (\<lambda>i j. j = 0))
         else if p = ''row.png'' then Some (solid 1 2 4 255)
         else Some (solid 2 2 4 255)),
      can_open = (\<lambda>p. True),
      CELERY_REDIRECT_STDOUTS_LEVEL = ''WARNING''\<rparr>"

definition ex_inputs_row :: ports where
  "ex_inputs_row =
     [(''Image'', at_path ''image.png''),
      (''rgba PNG - Background layer'', at_path ''background.png''),
      (''rgba PNG - Music symbol layer'', at_path ''full.png''),
      (''rgba PNG - Selected regions'', at_path ''row.png'')]"

text \<open>The three components of what an invocation leaves.\<close>

definition result_of :: "(exn + bool) \<times> proc \<times> (train_args \<times> proc) list \<Rightarrow> exn + bool" where
  "result_of r = fst r"

definition state_after :: "(exn + bool) \<times> proc \<times> (train_args \<times> proc) list \<Rightarrow> proc" where
  "state_after r = fst (snd r)"

definition trainer_calls ::
  "(exn + bool) \<times> proc \<times> (train_args \<times> proc) list \<Rightarrow> (train_args \<times> proc) list" where
  "trainer_calls r = snd (snd r)"

text \<open>
  The input port whose layer the wrapper composes into the ground truth of a class
  (lines 99, 124 and 128).
\<close>

definition layer_port :: "string \<Rightarrow> string" where
  "layer_port c =
     (if c = ''symbols'' then ''rgba PNG - Music symbol layer''
      else if c = ''staff'' then ''rgba PNG - Staff Lines layer''
      else ''rgba PNG - Text'')"


section \<open>Basic facts\<close>

lemmas run_defs = run_my_task_def task_body_def attach_log_handler_def prepare_call_def
  resource_path_def dict_get_def then_do_def keys_def optional_layer_def optional_output_def
  layer_mask_def alpha_opaque_def logical_and_def broadcast_dim_def
  redirect_stdouts_to_logger_def print_line_def Let_def
  result_of_def state_after_def trainer_calls_def

lemma then_do_Inr_iff: "then_do m f = Inr y \<longleftrightarrow> (\<exists>x. m = Inr x \<and> f x = Inr y)"
  by (cases m) (simp_all add: then_do_def)

lemma map_of_dict_set: "map_of (dict_set d k v) = (map_of d)(k \<mapsto> v)"
  by (induction d k v rule: dict_set.induct) (auto simp: fun_eq_iff)

lemma keys_dict_set: "set (keys (dict_set d k v)) = insert k (set (keys d))"
  by (induction d k v rule: dict_set.induct) (auto simp: keys_def)

lemma dict_get_Inr_iff: "dict_get d k = Inr v \<longleftrightarrow> map_of d k = Some v"
  by (simp add: dict_get_def split: option.splits)


lemma bidx_in_range: "i < n \<Longrightarrow> bidx n i = i"
  by (simp add: bidx_def)

lemma alpha_opaque_InrD:
  assumes "alpha_opaque x = Inr k"
  shows "\<exists>a. x = Some a \<and>
             k = \<lparr>mrows = rows a, mcols = cols a, mat = (\<lambda>i j. sample a i j 3 = 255)\<rparr>"
  using assms by (auto simp: alpha_opaque_def split: option.splits if_splits)

lemma layer_mask_InrD:
  assumes "layer_mask e inputs port = Inr k"
  shows "\<exists>p a. resource_path inputs port = Inr p \<and> imread e p IMREAD_UNCHANGED = Some a \<and>
               k = \<lparr>mrows = rows a, mcols = cols a, mat = (\<lambda>i j. sample a i j 3 = 255)\<rparr>"
proof -
  from assms obtain p where
    p: "resource_path inputs port = Inr p" and
    a: "alpha_opaque (imread e p IMREAD_UNCHANGED) = Inr k"
    by (auto simp: layer_mask_def then_do_Inr_iff)
  from alpha_opaque_InrD [OF a] p show ?thesis by blast
qed

lemma logical_and_InrD:
  assumes "logical_and a b = Inr m"
  shows "broadcast_dim (mrows a) (mrows b) = Some (mrows m) \<and>
         broadcast_dim (mcols a) (mcols b) = Some (mcols m) \<and>
         (\<forall>i j. mat m i j \<longleftrightarrow> mat_bc a i j \<and> mat_bc b i j)"
  using assms by (auto simp: logical_and_def split: option.splits)

lemma broadcast_dim_same: "broadcast_dim n n = Some k \<Longrightarrow> k = n"
  by (simp add: broadcast_dim_def)



subsection \<open>The two loops over the port names\<close>

lemma optional_layer_keys:
  assumes "optional_layer e inputs rm k g = Inr g'"
  shows "set (keys g') = set (keys g)
           \<union> (if k = ''rgba PNG - Staff Lines layer'' then {''staff''} else {})
           \<union> (if k = ''rgba PNG - Text'' then {''text''} else {})"
  using assms
  by (auto simp: optional_layer_def then_do_Inr_iff keys_dict_set split: if_splits)

lemma optional_layers_keys:
  "optional_layers e inputs rm ks g = Inr g' \<Longrightarrow>
   set (keys g') = set (keys g)
           \<union> (if ''rgba PNG - Staff Lines layer'' \<in> set ks then {''staff''} else {})
           \<union> (if ''rgba PNG - Text'' \<in> set ks then {''text''} else {})"
proof (induction ks arbitrary: g)
  case Nil
  then show ?case by simp
next
  case (Cons k ks)
  from Cons.prems obtain g1 where
    s: "optional_layer e inputs rm k g = Inr g1" and
    r: "optional_layers e inputs rm ks g1 = Inr g'"
    by (auto split: sum.splits)
  show ?case
    using Cons.IH [OF r] optional_layer_keys [OF s] by (auto split: if_splits)
qed

lemma optional_layer_values:
  assumes "optional_layer e inputs rm k g = Inr g'"
  shows "map_of g' c = Some m \<Longrightarrow>
           map_of g c = Some m
           \<or> (c = ''staff'' \<and> (\<exists>lm. layer_mask e inputs ''rgba PNG - Staff Lines layer'' = Inr lm
                                  \<and> logical_and lm rm = Inr m))
           \<or> (c = ''text'' \<and> (\<exists>lm. layer_mask e inputs ''rgba PNG - Text'' = Inr lm
                                  \<and> logical_and lm rm = Inr m))"
  using assms
  by (auto simp: optional_layer_def then_do_Inr_iff map_of_dict_set split: if_splits)

lemma optional_layers_values:
  "optional_layers e inputs rm ks g = Inr g' \<Longrightarrow> map_of g' c = Some m \<Longrightarrow>
           map_of g c = Some m
           \<or> (c = ''staff'' \<and> (\<exists>lm. layer_mask e inputs ''rgba PNG - Staff Lines layer'' = Inr lm
                                  \<and> logical_and lm rm = Inr m))
           \<or> (c = ''text'' \<and> (\<exists>lm. layer_mask e inputs ''rgba PNG - Text'' = Inr lm
                                  \<and> logical_and lm rm = Inr m))"
proof (induction ks arbitrary: g)
  case Nil
  then show ?case by simp
next
  case (Cons k ks)
  from Cons.prems obtain g1 where
    s: "optional_layer e inputs rm k g = Inr g1" and
    r: "optional_layers e inputs rm ks g1 = Inr g'"
    by (auto split: sum.splits)
  from Cons.IH [OF r Cons.prems(2)] optional_layer_values [OF s, of c m]
  show ?case by blast
qed

lemma optional_layer_keeps:
  assumes "optional_layer e inputs rm k g = Inr g'" "c \<noteq> ''staff''" "c \<noteq> ''text''"
  shows "map_of g' c = map_of g c"
  using assms
  by (auto simp: optional_layer_def then_do_Inr_iff map_of_dict_set split: if_splits)

lemma optional_layers_keeps:
  "optional_layers e inputs rm ks g = Inr g' \<Longrightarrow> c \<noteq> ''staff'' \<Longrightarrow> c \<noteq> ''text'' \<Longrightarrow>
   map_of g' c = map_of g c"
proof (induction ks arbitrary: g)
  case Nil
  then show ?case by simp
next
  case (Cons k ks)
  from Cons.prems obtain g1 where
    s: "optional_layer e inputs rm k g = Inr g1" and
    r: "optional_layers e inputs rm ks g1 = Inr g'"
    by (auto split: sum.splits)
  show ?case
    using Cons.IH [OF r Cons.prems(2,3)] optional_layer_keeps [OF s Cons.prems(2,3)] by simp
qed



lemma optional_output_keys:
  assumes "optional_output outputs k ps = Inr ps'"
  shows "set (keys ps') = set (keys ps)
           \<union> (if k = ''Staff Lines Model'' then {''staff''} else {})
           \<union> (if k = ''Text Model'' then {''text''} else {})"
  using assms
  by (auto simp: optional_output_def then_do_Inr_iff keys_dict_set split: if_splits)

lemma optional_outputs_keys:
  "optional_outputs outputs ks ps = Inr ps' \<Longrightarrow>
   set (keys ps') = set (keys ps)
           \<union> (if ''Staff Lines Model'' \<in> set ks then {''staff''} else {})
           \<union> (if ''Text Model'' \<in> set ks then {''text''} else {})"
proof (induction ks arbitrary: ps)
  case Nil
  then show ?case by simp
next
  case (Cons k ks)
  from Cons.prems obtain p1 where
    s: "optional_output outputs k ps = Inr p1" and
    r: "optional_outputs outputs ks p1 = Inr ps'"
    by (auto split: sum.splits)
  show ?case
    using Cons.IH [OF r] optional_output_keys [OF s] by (auto split: if_splits)
qed

lemma optional_output_keeps:
  assumes "optional_output outputs k ps = Inr ps'" "c \<noteq> ''staff''" "c \<noteq> ''text''"
  shows "map_of ps' c = map_of ps c"
  using assms
  by (auto simp: optional_output_def then_do_Inr_iff map_of_dict_set split: if_splits)

lemma optional_outputs_keeps:
  "optional_outputs outputs ks ps = Inr ps' \<Longrightarrow> c \<noteq> ''staff'' \<Longrightarrow> c \<noteq> ''text'' \<Longrightarrow>
   map_of ps' c = map_of ps c"
proof (induction ks arbitrary: ps)
  case Nil
  then show ?case by simp
next
  case (Cons k ks)
  from Cons.prems obtain p1 where
    s: "optional_output outputs k ps = Inr p1" and
    r: "optional_outputs outputs ks p1 = Inr ps'"
    by (auto split: sum.splits)
  show ?case
    using Cons.IH [OF r Cons.prems(2,3)] optional_output_keeps [OF s Cons.prems(2,3)] by simp
qed

lemma optional_outputs_staff_path:
  "optional_outputs outputs ks ps = Inr ps' \<Longrightarrow>
   ''Staff Lines Model'' \<in> set ks \<or>
     (\<exists>p. resource_path outputs ''Staff Lines Model'' = Inr p \<and> map_of ps ''staff'' = Some p) \<Longrightarrow>
   \<exists>p. resource_path outputs ''Staff Lines Model'' = Inr p \<and> map_of ps' ''staff'' = Some p"
proof (induction ks arbitrary: ps)
  case Nil
  then show ?case by simp
next
  case (Cons k ks)
  from Cons.prems(1) obtain p1 where
    s: "optional_output outputs k ps = Inr p1" and
    r: "optional_outputs outputs ks p1 = Inr ps'"
    by (auto split: sum.splits)
  have "''Staff Lines Model'' \<in> set ks \<or>
     (\<exists>p. resource_path outputs ''Staff Lines Model'' = Inr p \<and> map_of p1 ''staff'' = Some p)"
  proof (cases "k = ''Staff Lines Model''")
    case True
    with s show ?thesis
      by (auto simp: optional_output_def then_do_Inr_iff map_of_dict_set)
  next
    case False
    with s Cons.prems(2) show ?thesis
      by (auto simp: optional_output_def then_do_Inr_iff map_of_dict_set split: if_splits)
  qed
  from Cons.IH [OF r this] show ?case .
qed

lemma optional_outputs_text_path:
  "optional_outputs outputs ks ps = Inr ps' \<Longrightarrow>
   ''Text Model'' \<in> set ks \<or>
     (\<exists>p. resource_path outputs ''Text Model'' = Inr p \<and> map_of ps ''text'' = Some p) \<Longrightarrow>
   \<exists>p. resource_path outputs ''Text Model'' = Inr p \<and> map_of ps' ''text'' = Some p"
proof (induction ks arbitrary: ps)
  case Nil
  then show ?case by simp
next
  case (Cons k ks)
  from Cons.prems(1) obtain p1 where
    s: "optional_output outputs k ps = Inr p1" and
    r: "optional_outputs outputs ks p1 = Inr ps'"
    by (auto split: sum.splits)
  have "''Text Model'' \<in> set ks \<or>
     (\<exists>p. resource_path outputs ''Text Model'' = Inr p \<and> map_of p1 ''text'' = Some p)"
  proof (cases "k = ''Text Model''")
    case True
    with s show ?thesis
      by (auto simp: optional_output_def then_do_Inr_iff map_of_dict_set split: if_splits)
  next
    case False
    with s Cons.prems(2) show ?thesis
      by (auto simp: optional_output_def then_do_Inr_iff map_of_dict_set split: if_splits)
  qed
  from Cons.IH [OF r this] show ?case .
qed




subsection \<open>What a successful preparation went through\<close>

lemma prepare_call_InrD:
  assumes "prepare_call e inputs settings outputs = Inr args"
  shows "\<exists>p_image rm nm sym bg p_bg_model p_sym_model.
     resource_path inputs ''Image'' = Inr p_image \<and>
     input_image args = imread e p_image IMREAD_COLOR \<and>
     layer_mask e inputs ''rgba PNG - Selected regions'' = Inr rm \<and>
     layer_mask e inputs ''rgba PNG - Music symbol layer'' = Inr nm \<and>
     logical_and nm rm = Inr sym \<and>
     layer_mask e inputs ''rgba PNG - Background layer'' = Inr bg \<and>
     dict_get settings ''Batch Size'' = Inr (batch_size args) \<and>
     dict_get settings ''Patch height'' = Inr (height args) \<and>
     dict_get settings ''Patch width'' = Inr (width args) \<and>
     dict_get settings ''Maximum number of training epochs'' = Inr (epochs args) \<and>
     dict_get settings ''Maximum number of samples per label'' = Inr (max_samples_per_class args) \<and>
     resource_path outputs ''Background Model'' = Inr p_bg_model \<and>
     resource_path outputs ''Music Symbol Model'' = Inr p_sym_model \<and>
     optional_layers e inputs rm (keys inputs)
        (dict_set (dict_set [] ''symbols'' sym) ''background'' bg) = Inr (gt args) \<and>
     optional_outputs outputs (keys outputs)
        [(''background'', p_bg_model), (''symbols'', p_sym_model)] = Inr (output_path args)"
  using assms unfolding prepare_call_def layer_mask_def then_do_Inr_iff
  by (elim exE conjE) (auto simp: then_do_Inr_iff)

lemma keys_initial_gt:
  "set (keys (dict_set (dict_set [] ''symbols'' m1) ''background'' m2))
     = {''symbols'', ''background''}"
  by (auto simp: keys_def)

lemma prepare_call_gt_keys:
  assumes "prepare_call e inputs settings outputs = Inr args"
  shows "set (keys (gt args)) = {''symbols'', ''background''}
           \<union> (if ''rgba PNG - Staff Lines layer'' \<in> set (keys inputs) then {''staff''} else {})
           \<union> (if ''rgba PNG - Text'' \<in> set (keys inputs) then {''text''} else {})"
proof -
  from prepare_call_InrD [OF assms] obtain rm sym bg where
    "optional_layers e inputs rm (keys inputs)
        (dict_set (dict_set [] ''symbols'' sym) ''background'' bg) = Inr (gt args)"
    by blast
  from optional_layers_keys [OF this] show ?thesis
    unfolding keys_initial_gt .
qed

lemma prepare_call_output_keys:
  assumes "prepare_call e inputs settings outputs = Inr args"
  shows "set (keys (output_path args)) = {''background'', ''symbols''}
           \<union> (if ''Staff Lines Model'' \<in> set (keys outputs) then {''staff''} else {})
           \<union> (if ''Text Model'' \<in> set (keys outputs) then {''text''} else {})"
proof -
  from prepare_call_InrD [OF assms] obtain pb ps where
    "optional_outputs outputs (keys outputs)
        [(''background'', pb), (''symbols'', ps)] = Inr (output_path args)"
    by blast
  from optional_outputs_keys [OF this] show ?thesis
    by (simp add: keys_def)
qed


lemma prepare_call_background:
  assumes "prepare_call e inputs settings outputs = Inr args"
  shows "\<exists>bg. layer_mask e inputs ''rgba PNG - Background layer'' = Inr bg \<and>
              dict_get (gt args) ''background'' = Inr bg"
proof -
  from prepare_call_InrD [OF assms] obtain rm sy bg where
    b: "layer_mask e inputs ''rgba PNG - Background layer'' = Inr bg" and
    o: "optional_layers e inputs rm (keys inputs)
          (dict_set (dict_set [] ''symbols'' sy) ''background'' bg) = Inr (gt args)"
    by blast
  have "map_of (gt args) ''background''
          = map_of (dict_set (dict_set [] ''symbols'' sy) ''background'' bg) ''background''"
    by (rule optional_layers_keeps [OF o]) simp_all
  then have "dict_get (gt args) ''background'' = Inr bg"
    by (simp add: dict_get_Inr_iff map_of_dict_set)
  with b show ?thesis by blast
qed

lemma prepare_call_destinations:
  assumes "prepare_call e inputs settings outputs = Inr args"
  shows "(\<exists>p. resource_path outputs ''Background Model'' = Inr p \<and>
              dict_get (output_path args) ''background'' = Inr p) \<and>
         (\<exists>p. resource_path outputs ''Music Symbol Model'' = Inr p \<and>
              dict_get (output_path args) ''symbols'' = Inr p) \<and>
         (''Staff Lines Model'' \<in> set (keys outputs) \<longrightarrow>
            (\<exists>p. resource_path outputs ''Staff Lines Model'' = Inr p \<and>
                 dict_get (output_path args) ''staff'' = Inr p)) \<and>
         (''Text Model'' \<in> set (keys outputs) \<longrightarrow>
            (\<exists>p. resource_path outputs ''Text Model'' = Inr p \<and>
                 dict_get (output_path args) ''text'' = Inr p))"
proof -
  from prepare_call_InrD [OF assms] obtain pb ps where
    b: "resource_path outputs ''Background Model'' = Inr pb" and
    s: "resource_path outputs ''Music Symbol Model'' = Inr ps" and
    o: "optional_outputs outputs (keys outputs)
          [(''background'', pb), (''symbols'', ps)] = Inr (output_path args)"
    by blast
  have 1: "dict_get (output_path args) ''background'' = Inr pb"
    using optional_outputs_keeps [OF o, of "''background''"]
    by (simp add: dict_get_Inr_iff)
  have 2: "dict_get (output_path args) ''symbols'' = Inr ps"
    using optional_outputs_keeps [OF o, of "''symbols''"]
    by (simp add: dict_get_Inr_iff)
  have 3: "\<exists>p. resource_path outputs ''Staff Lines Model'' = Inr p \<and>
               dict_get (output_path args) ''staff'' = Inr p"
    if "''Staff Lines Model'' \<in> set (keys outputs)"
    using optional_outputs_staff_path [OF o] that by (simp add: dict_get_Inr_iff)
  have 4: "\<exists>p. resource_path outputs ''Text Model'' = Inr p \<and>
               dict_get (output_path args) ''text'' = Inr p"
    if "''Text Model'' \<in> set (keys outputs)"
    using optional_outputs_text_path [OF o] that by (simp add: dict_get_Inr_iff)
  from b s 1 2 3 4 show ?thesis by blast
qed


subsection \<open>The shape of an invocation\<close>

lemma run_attach_failed:
  "attach_log_handler e outputs st = Inl err \<Longrightarrow>
   run_my_task e t inputs settings outputs st = (Inl err, st, [])"
  by (simp add: run_my_task_def)

lemma run_prepare_failed:
  "attach_log_handler e outputs st = Inr st1 \<Longrightarrow>
   prepare_call e inputs settings outputs = Inl err \<Longrightarrow>
   result_of (run_my_task e t inputs settings outputs st) = Inl err \<and>
   trainer_calls (run_my_task e t inputs settings outputs st) = []"
  by (simp add: run_my_task_def task_body_def result_of_def trainer_calls_def Let_def)

lemma run_called:
  "attach_log_handler e outputs st = Inr st1 \<Longrightarrow>
   prepare_call e inputs settings outputs = Inr args \<Longrightarrow>
   result_of (run_my_task e t inputs settings outputs st) =
     (case fst (t args (redirect_stdouts_to_logger (CELERY_REDIRECT_STDOUTS_LEVEL e) st1)) of
        Inl err \<Rightarrow> Inl err | Inr status \<Rightarrow> Inr True) \<and>
   trainer_calls (run_my_task e t inputs settings outputs st) =
     [(args, redirect_stdouts_to_logger (CELERY_REDIRECT_STDOUTS_LEVEL e) st1)]"
  by (auto simp: run_my_task_def task_body_def result_of_def trainer_calls_def Let_def
           split: sum.splits prod.splits)

lemma run_callsD:
  assumes "(args, sc) \<in> set (trainer_calls (run_my_task e t inputs settings outputs st))"
  shows "\<exists>st1. attach_log_handler e outputs st = Inr st1 \<and>
               prepare_call e inputs settings outputs = Inr args \<and>
               sc = redirect_stdouts_to_logger (CELERY_REDIRECT_STDOUTS_LEVEL e) st1"
proof (cases "attach_log_handler e outputs st")
  case (Inl err)
  with assms show ?thesis by (simp add: run_attach_failed trainer_calls_def)
next
  case (Inr st1)
  show ?thesis
  proof (cases "prepare_call e inputs settings outputs")
    case (Inl err)
    with assms run_prepare_failed [OF Inr Inl, of t] show ?thesis by simp
  next
    case r: (Inr a)
    with assms run_called [OF Inr r, of t] Inr show ?thesis by simp
  qed
qed

lemma class_ground_truth_composed:
  assumes "(args, sc) \<in> set (trainer_calls (run_my_task e t inputs settings outputs st))"
      and "c \<in> {''symbols'', ''staff'', ''text''}"
      and "dict_get (gt args) c = Inr m"
  shows "\<exists>lm rm.
           layer_mask e inputs (layer_port c) = Inr lm \<and>
           layer_mask e inputs ''rgba PNG - Selected regions'' = Inr rm \<and>
           logical_and lm rm = Inr m"
proof -
  from run_callsD [OF assms(1)] have p: "prepare_call e inputs settings outputs = Inr args"
    by blast
  from prepare_call_InrD [OF p] obtain rm nm sy bg where
    r: "layer_mask e inputs ''rgba PNG - Selected regions'' = Inr rm" and
    n: "layer_mask e inputs ''rgba PNG - Music symbol layer'' = Inr nm" and
    s: "logical_and nm rm = Inr sy" and
    o: "optional_layers e inputs rm (keys inputs)
          (dict_set (dict_set [] ''symbols'' sy) ''background'' bg) = Inr (gt args)"
    by blast
  from assms(3) have g: "map_of (gt args) c = Some m"
    by (simp add: dict_get_Inr_iff)
  from optional_layers_values [OF o g] consider
      (from_symbols) "map_of (dict_set (dict_set [] ''symbols'' sy) ''background'' bg) c = Some m"
    | (from_staff) lm where "c = ''staff''"
        "layer_mask e inputs ''rgba PNG - Staff Lines layer'' = Inr lm"
        "logical_and lm rm = Inr m"
    | (from_text) lm where "c = ''text''"
        "layer_mask e inputs ''rgba PNG - Text'' = Inr lm"
        "logical_and lm rm = Inr m"
    by blast
  then show ?thesis
  proof cases
    case from_symbols
    with assms(2) have "c = ''symbols''" "m = sy"
      by (auto simp: map_of_dict_set split: if_splits)
    with n s r show ?thesis by (simp add: layer_port_def)
  next
    case from_staff
    with r show ?thesis by (simp add: layer_port_def)
  next
    case from_text
    with r show ?thesis by (simp add: layer_port_def)
  qed
qed


section \<open>The class plan\<close>

text \<open>
  The staff-lines input is supplied and the staff-model output is not: the ground truth
  passed to the trainer has a \<open>'staff'\<close> entry all the same.
\<close>
theorem staff_without_output_counterexample:
  "''rgba PNG - Staff Lines layer'' \<in> set (keys ex_inputs_staff) \<and>
   ''Staff Lines Model'' \<notin> set (keys ex_outputs) \<and>
   map (keys \<circ> gt \<circ> fst)
     (trainer_calls (run_my_task ex_env trainer_ok ex_inputs_staff ex_settings ex_outputs ex_proc))
     = [[''symbols'', ''background'', ''staff'']]"
  by (simp add: ex_env_def solid_def ex_inputs_staff_def ex_inputs_def at_path_def
        ex_outputs_def ex_settings_def ex_proc_def trainer_ok_def run_defs)

text \<open>
  C1, amended.  In the call to the trainer an optional class is in the ground-truth
  mapping exactly when its input port is among the keys of \<open>inputs\<close>, and in the
  output-path mapping exactly when its output port is among the keys of \<open>outputs\<close>;
  the two sides are decided independently of each other.
\<close>
theorem class_plan_presence:
  assumes "(args, sc) \<in> set (trainer_calls (run_my_task e t inputs settings outputs st))"
  shows "(''staff'' \<in> set (keys (gt args))
            \<longleftrightarrow> ''rgba PNG - Staff Lines layer'' \<in> set (keys inputs)) \<and>
         (''text'' \<in> set (keys (gt args))
            \<longleftrightarrow> ''rgba PNG - Text'' \<in> set (keys inputs)) \<and>
         (''staff'' \<in> set (keys (output_path args))
            \<longleftrightarrow> ''Staff Lines Model'' \<in> set (keys outputs)) \<and>
         (''text'' \<in> set (keys (output_path args))
            \<longleftrightarrow> ''Text Model'' \<in> set (keys outputs))"
proof -
  from run_callsD [OF assms] have p: "prepare_call e inputs settings outputs = Inr args"
    by blast
  have g: "''staff'' \<in> set (keys (gt args))
            \<longleftrightarrow> ''rgba PNG - Staff Lines layer'' \<in> set (keys inputs)"
    by (simp add: prepare_call_gt_keys [OF p])
  have g': "''text'' \<in> set (keys (gt args)) \<longleftrightarrow> ''rgba PNG - Text'' \<in> set (keys inputs)"
    by (simp add: prepare_call_gt_keys [OF p])
  have o: "''staff'' \<in> set (keys (output_path args))
            \<longleftrightarrow> ''Staff Lines Model'' \<in> set (keys outputs)"
    by (simp add: prepare_call_output_keys [OF p])
  have o': "''text'' \<in> set (keys (output_path args)) \<longleftrightarrow> ''Text Model'' \<in> set (keys outputs)"
    by (simp add: prepare_call_output_keys [OF p])
  from g g' o o' show ?thesis by blast
qed

theorem class_plan_presence_witness:
  "hd (trainer_calls
        (run_my_task ex_env trainer_ok ex_inputs_staff ex_settings ex_outputs ex_proc))
     \<in> set (trainer_calls
        (run_my_task ex_env trainer_ok ex_inputs_staff ex_settings ex_outputs ex_proc)) \<and>
   ''rgba PNG - Staff Lines layer'' \<in> set (keys ex_inputs_staff) \<and>
   ''staff'' \<in> set (keys (gt (fst (hd (trainer_calls
        (run_my_task ex_env trainer_ok ex_inputs_staff ex_settings ex_outputs ex_proc)))))) \<and>
   ''Staff Lines Model'' \<notin> set (keys ex_outputs) \<and>
   ''staff'' \<notin> set (keys (output_path (fst (hd (trainer_calls
        (run_my_task ex_env trainer_ok ex_inputs_staff ex_settings ex_outputs ex_proc))))))"
proof -
  let ?R = "run_my_task ex_env trainer_ok ex_inputs_staff ex_settings ex_outputs ex_proc"
  have h: "(fst (hd (trainer_calls ?R)), snd (hd (trainer_calls ?R))) \<in> set (trainer_calls ?R)"
    by (simp add: ex_env_def solid_def ex_inputs_staff_def ex_inputs_def at_path_def
          ex_outputs_def ex_settings_def ex_proc_def trainer_ok_def run_defs)
  have i: "''rgba PNG - Staff Lines layer'' \<in> set (keys ex_inputs_staff)"
    by (simp add: ex_env_def solid_def ex_inputs_staff_def ex_inputs_def at_path_def
          ex_outputs_def ex_settings_def ex_proc_def trainer_ok_def keys_def)
  have o: "''Staff Lines Model'' \<notin> set (keys ex_outputs)"
    by (simp add: ex_env_def solid_def ex_inputs_staff_def ex_inputs_def at_path_def
          ex_outputs_def ex_settings_def ex_proc_def trainer_ok_def keys_def)
  from class_plan_presence [OF h] h i o show ?thesis by simp
qed


section \<open>Shapes\<close>





section \<open>The ground truth\<close>

text \<open>
  A regions layer of one row and a symbols layer of two: the ground truth of the symbols
  has two rows, and its pixel in row 1 is true where the selection mask has no row 1.
\<close>

theorem broadcast_regions_counterexample:
  "length (trainer_calls
      (run_my_task ex_env_marked trainer_ok ex_inputs_row ex_settings ex_outputs ex_proc)) = 1 \<and>
   mrows (projr (layer_mask ex_env_marked ex_inputs_row ''rgba PNG - Selected regions'')) = 1 \<and>
   mrows (projr (dict_get (gt (fst (hd (trainer_calls
      (run_my_task ex_env_marked trainer_ok ex_inputs_row ex_settings ex_outputs ex_proc)))))
      ''symbols'')) = 2 \<and>
   mat (projr (dict_get (gt (fst (hd (trainer_calls
      (run_my_task ex_env_marked trainer_ok ex_inputs_row ex_settings ex_outputs ex_proc)))))
      ''symbols'')) 1 0"
  by (simp add: ex_env_marked_def ex_inputs_row_def trainer_ok_def ex_settings_def
        ex_outputs_def ex_proc_def at_path_def solid_def run_defs mat_bc_def bidx_def)

text \<open>
  C6, amended.  In the call to the trainer the ground truth of a class among symbols,
  staff and text is the logical AND of the test \<open>alpha == 255\<close> on the class layer with
  the same test on the selected-regions layer, each read as numpy broadcasts it.  When
  the two layers have the same dimensions the ground truth has those dimensions and a
  pixel is true in it exactly when it is fully opaque in both layers, so that every
  pixel true in the ground truth is true in the selection mask.
\<close>

theorem class_ground_truth_pixels:
  assumes "(args, sc) \<in> set (trainer_calls (run_my_task e t inputs settings outputs st))"
      and "c \<in> {''symbols'', ''staff'', ''text''}"
      and "dict_get (gt args) c = Inr m"
  shows "\<exists>pl a pr r.
           resource_path inputs (layer_port c) = Inr pl \<and>
           imread e pl IMREAD_UNCHANGED = Some a \<and>
           resource_path inputs ''rgba PNG - Selected regions'' = Inr pr \<and>
           imread e pr IMREAD_UNCHANGED = Some r \<and>
           broadcast_dim (rows a) (rows r) = Some (mrows m) \<and>
           broadcast_dim (cols a) (cols r) = Some (mcols m) \<and>
           (\<forall>i j. mat m i j \<longleftrightarrow>
                    sample a (bidx (rows a) i) (bidx (cols a) j) 3 = 255 \<and>
                    sample r (bidx (rows r) i) (bidx (cols r) j) 3 = 255) \<and>
           (rows a = rows r \<and> cols a = cols r \<longrightarrow>
              mrows m = rows r \<and> mcols m = cols r \<and>
              (\<forall>i<rows r. \<forall>j<cols r.
                 mat m i j \<longleftrightarrow> sample a i j 3 = 255 \<and> sample r i j 3 = 255))"
proof -
  from class_ground_truth_composed [OF assms] obtain lm rm where
    l: "layer_mask e inputs (layer_port c) = Inr lm" and
    r: "layer_mask e inputs ''rgba PNG - Selected regions'' = Inr rm" and
    a: "logical_and lm rm = Inr m"
    by blast
  from layer_mask_InrD [OF l] obtain pl im where
    pl: "resource_path inputs (layer_port c) = Inr pl"
        "imread e pl IMREAD_UNCHANGED = Some im" and
    lm: "lm = \<lparr>mrows = rows im, mcols = cols im, mat = (\<lambda>i j. sample im i j 3 = 255)\<rparr>"
    by blast
  from layer_mask_InrD [OF r] obtain pr re where
    pr: "resource_path inputs ''rgba PNG - Selected regions'' = Inr pr"
        "imread e pr IMREAD_UNCHANGED = Some re" and
    rm: "rm = \<lparr>mrows = rows re, mcols = cols re, mat = (\<lambda>i j. sample re i j 3 = 255)\<rparr>"
    by blast
  from logical_and_InrD [OF a] lm rm have
    h: "broadcast_dim (rows im) (rows re) = Some (mrows m)" and
    w: "broadcast_dim (cols im) (cols re) = Some (mcols m)" and
    v: "\<forall>i j. mat m i j \<longleftrightarrow>
                 sample im (bidx (rows im) i) (bidx (cols im) j) 3 = 255 \<and>
                 sample re (bidx (rows re) i) (bidx (cols re) j) 3 = 255"
    by (simp_all add: mat_bc_def)
  have same: "mrows m = rows re \<and> mcols m = cols re \<and>
              (\<forall>i<rows re. \<forall>j<cols re.
                 mat m i j \<longleftrightarrow> sample im i j 3 = 255 \<and> sample re i j 3 = 255)"
    if e: "rows im = rows re \<and> cols im = cols re"
  proof -
    from h w e have d: "mrows m = rows re" "mcols m = cols re"
      by (auto dest: broadcast_dim_same)
    from v e have "\<forall>i<rows re. \<forall>j<cols re.
                 mat m i j \<longleftrightarrow> sample im i j 3 = 255 \<and> sample re i j 3 = 255"
      by (simp add: bidx_in_range)
    with d show ?thesis by blast
  qed
  from pl pr h w v same show ?thesis by blast
qed

theorem class_ground_truth_pixels_witness:
  "hd (trainer_calls
        (run_my_task ex_env_marked trainer_ok ex_inputs ex_settings ex_outputs ex_proc))
     \<in> set (trainer_calls
        (run_my_task ex_env_marked trainer_ok ex_inputs ex_settings ex_outputs ex_proc)) \<and>
   ''symbols'' \<in> {''symbols'', ''staff'', ''text''} \<and>
   dict_get (gt (fst (hd (trainer_calls
        (run_my_task ex_env_marked trainer_ok ex_inputs ex_settings ex_outputs ex_proc)))))
      ''symbols''
     = Inr (projr (dict_get (gt (fst (hd (trainer_calls
        (run_my_task ex_env_marked trainer_ok ex_inputs ex_settings ex_outputs ex_proc)))))
      ''symbols'')) \<and>
   mrows (projr (dict_get (gt (fst (hd (trainer_calls
        (run_my_task ex_env_marked trainer_ok ex_inputs ex_settings ex_outputs ex_proc)))))
      ''symbols'')) = 2 \<and>
   mat (projr (dict_get (gt (fst (hd (trainer_calls
        (run_my_task ex_env_marked trainer_ok ex_inputs ex_settings ex_outputs ex_proc)))))
      ''symbols'')) 0 0 \<and>
   \<not> mat (projr (dict_get (gt (fst (hd (trainer_calls
        (run_my_task ex_env_marked trainer_ok ex_inputs ex_settings ex_outputs ex_proc)))))
      ''symbols'')) 0 1 \<and>
   \<not> mat (projr (dict_get (gt (fst (hd (trainer_calls
        (run_my_task ex_env_marked trainer_ok ex_inputs ex_settings ex_outputs ex_proc)))))
      ''symbols'')) 1 0"
proof -
  let ?R = "run_my_task ex_env_marked trainer_ok ex_inputs ex_settings ex_outputs ex_proc"
  let ?m = "projr (dict_get (gt (fst (hd (trainer_calls ?R)))) ''symbols'')"
  let ?a = "opaque_where 2 2 (\<lambda>i j. i = 0)"
  let ?r = "opaque_where 2 2 (\<lambda>i j. j = 0)"
  have h: "(fst (hd (trainer_calls ?R)), snd (hd (trainer_calls ?R))) \<in> set (trainer_calls ?R)"
    by (simp add: ex_env_marked_def trainer_ok_def ex_inputs_def ex_settings_def ex_outputs_def
          ex_proc_def at_path_def solid_def opaque_where_def run_defs)
  have c: "''symbols'' \<in> {''symbols'', ''staff'', ''text''}"
    by simp
  have g: "dict_get (gt (fst (hd (trainer_calls ?R)))) ''symbols'' = Inr ?m"
    by (simp add: ex_env_marked_def trainer_ok_def ex_inputs_def ex_settings_def ex_outputs_def
          ex_proc_def at_path_def solid_def opaque_where_def run_defs)
  from class_ground_truth_pixels [OF h c g] obtain pl a pr r where
    pl: "resource_path ex_inputs (layer_port ''symbols'') = Inr pl" and
    a: "imread ex_env_marked pl IMREAD_UNCHANGED = Some a" and
    pr: "resource_path ex_inputs ''rgba PNG - Selected regions'' = Inr pr" and
    r: "imread ex_env_marked pr IMREAD_UNCHANGED = Some r" and
    s: "rows a = rows r \<and> cols a = cols r \<longrightarrow>
          mrows ?m = rows r \<and> mcols ?m = cols r \<and>
          (\<forall>i<rows r. \<forall>j<cols r.
             mat ?m i j \<longleftrightarrow> sample a i j 3 = 255 \<and> sample r i j 3 = 255)"
    by blast
  from pl have "pl = ''symbols.png''"
    by (simp add: layer_port_def ex_inputs_def at_path_def resource_path_def dict_get_def
          then_do_def)
  with a have a': "a = ?a"
    by (simp add: ex_env_marked_def)
  from pr have "pr = ''regions.png''"
    by (simp add: ex_inputs_def at_path_def resource_path_def dict_get_def then_do_def)
  with r have r': "r = ?r"
    by (simp add: ex_env_marked_def)
  from s a' r' have
    d: "mrows ?m = 2" and
    v: "\<forall>i<2. \<forall>j<2. mat ?m i j \<longleftrightarrow> sample ?a i j 3 = 255 \<and> sample ?r i j 3 = 255"
    by (simp_all add: opaque_where_def)
  from v have "mat ?m 0 0" "\<not> mat ?m 0 1" "\<not> mat ?m 1 0"
    by (simp_all add: opaque_where_def)
  with h c g d show ?thesis by simp
qed

text \<open>
  C7.  In the call to the trainer the ground truth of the background class is the test
  \<open>alpha == 255\<close> on the background layer and nothing else: the selection mask takes no
  part in it.
\<close>
theorem background_ground_truth:
  assumes "(args, sc) \<in> set (trainer_calls (run_my_task e t inputs settings outputs st))"
  shows "\<exists>p a. resource_path inputs ''rgba PNG - Background layer'' = Inr p \<and>
               imread e p IMREAD_UNCHANGED = Some a \<and>
               dict_get (gt args) ''background''
                 = Inr \<lparr>mrows = rows a, mcols = cols a,
                        mat = (\<lambda>i j. sample a i j 3 = 255)\<rparr>"
proof -
  from run_callsD [OF assms] have p: "prepare_call e inputs settings outputs = Inr args"
    by blast
  from prepare_call_InrD [OF p] obtain rm sym bg where
    b: "layer_mask e inputs ''rgba PNG - Background layer'' = Inr bg" and
    o: "optional_layers e inputs rm (keys inputs)
          (dict_set (dict_set [] ''symbols'' sym) ''background'' bg) = Inr (gt args)"
    by blast
  have "map_of (gt args) ''background''
          = map_of (dict_set (dict_set [] ''symbols'' sym) ''background'' bg) ''background''"
    by (rule optional_layers_keeps [OF o]) simp_all
  then have g: "dict_get (gt args) ''background'' = Inr bg"
    by (simp add: dict_get_Inr_iff map_of_dict_set)
  from b obtain q where
    q: "resource_path inputs ''rgba PNG - Background layer'' = Inr q" and
    a: "alpha_opaque (imread e q IMREAD_UNCHANGED) = Inr bg"
    by (auto simp: layer_mask_def then_do_Inr_iff)
  from a obtain im where
    "imread e q IMREAD_UNCHANGED = Some im"
    "bg = \<lparr>mrows = rows im, mcols = cols im, mat = (\<lambda>i j. sample im i j 3 = 255)\<rparr>"
    by (auto simp: alpha_opaque_def split: option.splits if_splits)
  with q g show ?thesis by blast
qed

theorem background_ground_truth_witness:
  "hd (trainer_calls
        (run_my_task ex_env trainer_ok ex_inputs ex_settings ex_outputs ex_proc))
     \<in> set (trainer_calls
        (run_my_task ex_env trainer_ok ex_inputs ex_settings ex_outputs ex_proc)) \<and>
   (\<exists>p a. resource_path ex_inputs ''rgba PNG - Background layer'' = Inr p \<and>
          imread ex_env p IMREAD_UNCHANGED = Some a \<and>
          dict_get (gt (fst (hd (trainer_calls
            (run_my_task ex_env trainer_ok ex_inputs ex_settings ex_outputs ex_proc)))))
            ''background''
            = Inr \<lparr>mrows = rows a, mcols = cols a, mat = (\<lambda>i j. sample a i j 3 = 255)\<rparr>)"
proof -
  let ?R = "run_my_task ex_env trainer_ok ex_inputs ex_settings ex_outputs ex_proc"
  have h: "(fst (hd (trainer_calls ?R)), snd (hd (trainer_calls ?R))) \<in> set (trainer_calls ?R)"
    by (simp add: ex_env_def solid_def ex_inputs_def at_path_def ex_outputs_def ex_settings_def
          ex_proc_def trainer_ok_def run_defs)
  from background_ground_truth [OF h] h show ?thesis by simp
qed


section \<open>The call to the trainer\<close>

text \<open>
  An invocation whose symbols layer does not fit the regions makes no trainer call; and
  with a text input but no text output, the two mappings of the call have different
  class sets.
\<close>
theorem trainer_calls_counterexample:
  "trainer_calls (run_my_task ex_env trainer_ok ex_inputs_wide ex_settings ex_outputs ex_proc)
     = [] \<and>
   map (keys \<circ> gt \<circ> fst)
     (trainer_calls (run_my_task ex_env trainer_ok ex_inputs_text ex_settings ex_outputs ex_proc))
     = [[''symbols'', ''background'', ''text'']] \<and>
   map (keys \<circ> output_path \<circ> fst)
     (trainer_calls (run_my_task ex_env trainer_ok ex_inputs_text ex_settings ex_outputs ex_proc))
     = [[''background'', ''symbols'']]"
  by (simp add: ex_env_def solid_def ex_inputs_text_def ex_inputs_def at_path_def
        ex_inputs_wide_def ex_outputs_def ex_settings_def ex_proc_def trainer_ok_def run_defs)

text \<open>
  C9, amended.  An invocation calls the trainer at most once, and exactly once when it
  returns.  The call passes the base image read from the \<open>'Image'\<close> port and the five
  settings.  Its ground truth is over symbols, background and each optional class whose
  input port is present: the background layer's own mask for background, the class
  layer composed with the regions for the others.  Its output paths are over background,
  symbols and each optional class whose output port is present, each class with the
  path of its own model port.  The result of the invocation is decided by that call.
\<close>

theorem trainer_call_arguments:
  "length (trainer_calls (run_my_task e t inputs settings outputs st)) \<le> 1 \<and>
   (result_of (run_my_task e t inputs settings outputs st) = Inr b \<longrightarrow>
      length (trainer_calls (run_my_task e t inputs settings outputs st)) = 1) \<and>
   ((args, sc) \<in> set (trainer_calls (run_my_task e t inputs settings outputs st)) \<longrightarrow>
      ((\<exists>p. resource_path inputs ''Image'' = Inr p \<and>
            input_image args = imread e p IMREAD_COLOR) \<and>
       dict_get settings ''Patch height'' = Inr (height args) \<and>
       dict_get settings ''Patch width'' = Inr (width args) \<and>
       dict_get settings ''Maximum number of samples per label''
         = Inr (max_samples_per_class args) \<and>
       dict_get settings ''Maximum number of training epochs'' = Inr (epochs args) \<and>
       dict_get settings ''Batch Size'' = Inr (batch_size args) \<and>
       set (keys (gt args)) = {''symbols'', ''background''}
         \<union> (if ''rgba PNG - Staff Lines layer'' \<in> set (keys inputs) then {''staff''} else {})
         \<union> (if ''rgba PNG - Text'' \<in> set (keys inputs) then {''text''} else {}) \<and>
       set (keys (output_path args)) = {''background'', ''symbols''}
         \<union> (if ''Staff Lines Model'' \<in> set (keys outputs) then {''staff''} else {})
         \<union> (if ''Text Model'' \<in> set (keys outputs) then {''text''} else {})) \<and>
      ((\<exists>bg. layer_mask e inputs ''rgba PNG - Background layer'' = Inr bg \<and>
             dict_get (gt args) ''background'' = Inr bg) \<and>
       (\<forall>c\<in>{''symbols'', ''staff'', ''text''}. \<forall>m. dict_get (gt args) c = Inr m \<longrightarrow>
          (\<exists>lm rm. layer_mask e inputs (layer_port c) = Inr lm \<and>
                   layer_mask e inputs ''rgba PNG - Selected regions'' = Inr rm \<and>
                   logical_and lm rm = Inr m))) \<and>
      ((\<exists>p. resource_path outputs ''Background Model'' = Inr p \<and>
            dict_get (output_path args) ''background'' = Inr p) \<and>
       (\<exists>p. resource_path outputs ''Music Symbol Model'' = Inr p \<and>
            dict_get (output_path args) ''symbols'' = Inr p) \<and>
       (''Staff Lines Model'' \<in> set (keys outputs) \<longrightarrow>
          (\<exists>p. resource_path outputs ''Staff Lines Model'' = Inr p \<and>
               dict_get (output_path args) ''staff'' = Inr p)) \<and>
       (''Text Model'' \<in> set (keys outputs) \<longrightarrow>
          (\<exists>p. resource_path outputs ''Text Model'' = Inr p \<and>
               dict_get (output_path args) ''text'' = Inr p))) \<and>
      result_of (run_my_task e t inputs settings outputs st) =
        (case fst (t args sc) of Inl err \<Rightarrow> Inl err | Inr status \<Rightarrow> Inr True))"
proof -
  let ?R = "run_my_task e t inputs settings outputs st"
  let ?G1 = "(\<exists>p. resource_path inputs ''Image'' = Inr p \<and>
            input_image args = imread e p IMREAD_COLOR) \<and>
       dict_get settings ''Patch height'' = Inr (height args) \<and>
       dict_get settings ''Patch width'' = Inr (width args) \<and>
       dict_get settings ''Maximum number of samples per label''
         = Inr (max_samples_per_class args) \<and>
       dict_get settings ''Maximum number of training epochs'' = Inr (epochs args) \<and>
       dict_get settings ''Batch Size'' = Inr (batch_size args) \<and>
       set (keys (gt args)) = {''symbols'', ''background''}
         \<union> (if ''rgba PNG - Staff Lines layer'' \<in> set (keys inputs) then {''staff''} else {})
         \<union> (if ''rgba PNG - Text'' \<in> set (keys inputs) then {''text''} else {}) \<and>
       set (keys (output_path args)) = {''background'', ''symbols''}
         \<union> (if ''Staff Lines Model'' \<in> set (keys outputs) then {''staff''} else {})
         \<union> (if ''Text Model'' \<in> set (keys outputs) then {''text''} else {})"
  let ?G2 = "(\<exists>bg. layer_mask e inputs ''rgba PNG - Background layer'' = Inr bg \<and>
             dict_get (gt args) ''background'' = Inr bg) \<and>
       (\<forall>c\<in>{''symbols'', ''staff'', ''text''}. \<forall>m. dict_get (gt args) c = Inr m \<longrightarrow>
          (\<exists>lm rm. layer_mask e inputs (layer_port c) = Inr lm \<and>
                   layer_mask e inputs ''rgba PNG - Selected regions'' = Inr rm \<and>
                   logical_and lm rm = Inr m))"
  let ?G3 = "(\<exists>p. resource_path outputs ''Background Model'' = Inr p \<and>
            dict_get (output_path args) ''background'' = Inr p) \<and>
       (\<exists>p. resource_path outputs ''Music Symbol Model'' = Inr p \<and>
            dict_get (output_path args) ''symbols'' = Inr p) \<and>
       (''Staff Lines Model'' \<in> set (keys outputs) \<longrightarrow>
          (\<exists>p. resource_path outputs ''Staff Lines Model'' = Inr p \<and>
               dict_get (output_path args) ''staff'' = Inr p)) \<and>
       (''Text Model'' \<in> set (keys outputs) \<longrightarrow>
          (\<exists>p. resource_path outputs ''Text Model'' = Inr p \<and>
               dict_get (output_path args) ''text'' = Inr p))"
  let ?G4 = "result_of (run_my_task e t inputs settings outputs st) =
        (case fst (t args sc) of Inl err \<Rightarrow> Inl err | Inr status \<Rightarrow> Inr True)"
  have one: "length (trainer_calls ?R) \<le> 1 \<and>
             (result_of ?R = Inr b \<longrightarrow> length (trainer_calls ?R) = 1)"
  proof (cases "attach_log_handler e outputs st")
    case (Inl err)
    then show ?thesis
      by (simp add: run_attach_failed trainer_calls_def result_of_def)
  next
    case a: (Inr st1)
    show ?thesis
    proof (cases "prepare_call e inputs settings outputs")
      case (Inl err)
      from run_prepare_failed [OF a Inl, of t] show ?thesis by simp
    next
      case (Inr x)
      from run_called [OF a Inr, of t] show ?thesis by simp
    qed
  qed
  have called: "(args, sc) \<in> set (trainer_calls ?R) \<longrightarrow> ?G1 \<and> ?G2 \<and> ?G3 \<and> ?G4"
  proof
    assume c: "(args, sc) \<in> set (trainer_calls ?R)"
    from run_callsD [OF c] obtain st1 where
      a: "attach_log_handler e outputs st = Inr st1" and
      p: "prepare_call e inputs settings outputs = Inr args" and
      s: "sc = redirect_stdouts_to_logger (CELERY_REDIRECT_STDOUTS_LEVEL e) st1"
      by blast
    from prepare_call_InrD [OF p] prepare_call_gt_keys [OF p] prepare_call_output_keys [OF p]
    have g1: ?G1 by blast
    from prepare_call_background [OF p] class_ground_truth_composed [OF c]
    have g2: ?G2 by blast
    from prepare_call_destinations [OF p]
    have g3: ?G3 .
    from run_called [OF a p, of t] s
    have g4: ?G4 by simp
    show "?G1 \<and> ?G2 \<and> ?G3 \<and> ?G4"
      by (rule conjI [OF g1 conjI [OF g2 conjI [OF g3 g4]]])
  qed
  show ?thesis
    by (rule conjI [OF conjunct1 [OF one] conjI [OF conjunct2 [OF one] called]])
qed

theorem trainer_call_arguments_witness:
  "result_of (run_my_task ex_env trainer_ok ex_inputs_text ex_settings ex_outputs ex_proc)
     = Inr True \<and>
   length (trainer_calls
     (run_my_task ex_env trainer_ok ex_inputs_text ex_settings ex_outputs ex_proc)) = 1 \<and>
   hd (trainer_calls
        (run_my_task ex_env trainer_ok ex_inputs_text ex_settings ex_outputs ex_proc))
     \<in> set (trainer_calls
        (run_my_task ex_env trainer_ok ex_inputs_text ex_settings ex_outputs ex_proc)) \<and>
   dict_get ex_settings ''Batch Size'' = Inr (batch_size (fst (hd (trainer_calls
        (run_my_task ex_env trainer_ok ex_inputs_text ex_settings ex_outputs ex_proc))))) \<and>
   set (keys (gt (fst (hd (trainer_calls
        (run_my_task ex_env trainer_ok ex_inputs_text ex_settings ex_outputs ex_proc))))))
     = {''symbols'', ''background'', ''text''} \<and>
   set (keys (output_path (fst (hd (trainer_calls
        (run_my_task ex_env trainer_ok ex_inputs_text ex_settings ex_outputs ex_proc))))))
     = {''background'', ''symbols''} \<and>
   dict_get (output_path (fst (hd (trainer_calls
        (run_my_task ex_env trainer_ok ex_inputs_text ex_settings ex_outputs ex_proc)))))
      ''background'' = Inr ''background.hdf5'' \<and>
   dict_get (output_path (fst (hd (trainer_calls
        (run_my_task ex_env trainer_ok ex_inputs_text ex_settings ex_outputs ex_proc)))))
      ''symbols'' = Inr ''symbols.hdf5''"
proof -
  let ?R = "run_my_task ex_env trainer_ok ex_inputs_text ex_settings ex_outputs ex_proc"
  have r: "result_of ?R = Inr True"
    by (simp add: ex_env_def solid_def trainer_ok_def ex_inputs_text_def ex_inputs_def
          at_path_def ex_settings_def ex_outputs_def ex_proc_def run_defs)
  have h: "(fst (hd (trainer_calls ?R)), snd (hd (trainer_calls ?R))) \<in> set (trainer_calls ?R)"
    by (simp add: ex_env_def solid_def trainer_ok_def ex_inputs_text_def ex_inputs_def
          at_path_def ex_settings_def ex_outputs_def ex_proc_def run_defs)
  have i: "''rgba PNG - Staff Lines layer'' \<notin> set (keys ex_inputs_text) \<and>
           ''rgba PNG - Text'' \<in> set (keys ex_inputs_text)"
    by (simp add: ex_inputs_text_def ex_inputs_def at_path_def keys_def)
  have o: "''Staff Lines Model'' \<notin> set (keys ex_outputs) \<and>
           ''Text Model'' \<notin> set (keys ex_outputs)"
    by (simp add: ex_outputs_def at_path_def keys_def)
  have pb: "resource_path ex_outputs ''Background Model'' = Inr ''background.hdf5''"
    by (simp add: ex_outputs_def at_path_def resource_path_def dict_get_def then_do_def)
  have ps: "resource_path ex_outputs ''Music Symbol Model'' = Inr ''symbols.hdf5''"
    by (simp add: ex_outputs_def at_path_def resource_path_def dict_get_def then_do_def)
  note c = trainer_call_arguments [of ex_env trainer_ok ex_inputs_text ex_settings ex_outputs
      ex_proc True "fst (hd (trainer_calls ?R))" "snd (hd (trainer_calls ?R))"]
  from mp [OF conjunct1 [OF conjunct2 [OF c]] r]
  have l: "length (trainer_calls ?R) = 1" .
  note k = mp [OF conjunct2 [OF conjunct2 [OF c]] h]
  note g1 = conjunct1 [OF k]
  note g3 = conjunct1 [OF conjunct2 [OF conjunct2 [OF k]]]
  from g1 have b: "dict_get ex_settings ''Batch Size''
      = Inr (batch_size (fst (hd (trainer_calls ?R))))" by blast
  from g1 i have g: "set (keys (gt (fst (hd (trainer_calls ?R)))))
      = {''symbols'', ''background'', ''text''}" by auto
  from g1 o have p: "set (keys (output_path (fst (hd (trainer_calls ?R)))))
      = {''background'', ''symbols''}" by auto
  from g3 pb have d1: "dict_get (output_path (fst (hd (trainer_calls ?R)))) ''background''
      = Inr ''background.hdf5''" by auto
  from g3 ps have d2: "dict_get (output_path (fst (hd (trainer_calls ?R)))) ''symbols''
      = Inr ''symbols.hdf5''" by auto
  from r l h b g p d1 d2 show ?thesis by simp
qed

text \<open>
  A trainer that returns \<open>False\<close> is called once, and the invocation returns \<open>True\<close>.
\<close>
theorem trainer_failure_counterexample:
  "map (fst \<circ> case_prod trainer_failed)
     (trainer_calls (run_my_task ex_env trainer_failed ex_inputs ex_settings ex_outputs ex_proc))
     = [Inr False] \<and>
   result_of (run_my_task ex_env trainer_failed ex_inputs ex_settings ex_outputs ex_proc)
     = Inr True"
  by (simp add: ex_env_def solid_def ex_inputs_def at_path_def ex_outputs_def ex_settings_def
        ex_proc_def trainer_failed_def run_defs)

text \<open>
  C3, amended.  An invocation that called the trainer called it once; when that call
  raised, the invocation raises the same exception, and when it returned, the invocation
  returns \<open>True\<close> whatever status was returned.
\<close>
theorem result_after_trainer_call:
  assumes "(args, sc) \<in> set (trainer_calls (run_my_task e t inputs settings outputs st))"
  shows "trainer_calls (run_my_task e t inputs settings outputs st) = [(args, sc)] \<and>
         result_of (run_my_task e t inputs settings outputs st) =
           (case fst (t args sc) of Inl err \<Rightarrow> Inl err | Inr status \<Rightarrow> Inr True)"
proof -
  from run_callsD [OF assms] obtain st1 where
    a: "attach_log_handler e outputs st = Inr st1" and
    p: "prepare_call e inputs settings outputs = Inr args" and
    s: "sc = redirect_stdouts_to_logger (CELERY_REDIRECT_STDOUTS_LEVEL e) st1"
    by blast
  from run_called [OF a p, of t] s show ?thesis by simp
qed

theorem result_after_trainer_call_witness:
  "(fst (hd (trainer_calls
       (run_my_task ex_env trainer_raises ex_inputs ex_settings ex_outputs ex_proc))),
    snd (hd (trainer_calls
       (run_my_task ex_env trainer_raises ex_inputs ex_settings ex_outputs ex_proc))))
     \<in> set (trainer_calls
       (run_my_task ex_env trainer_raises ex_inputs ex_settings ex_outputs ex_proc)) \<and>
   length (trainer_calls
       (run_my_task ex_env trainer_raises ex_inputs ex_settings ex_outputs ex_proc)) = 1 \<and>
   result_of (run_my_task ex_env trainer_raises ex_inputs ex_settings ex_outputs ex_proc)
     = Inl (Raised ''out of memory'')"
proof -
  let ?R = "run_my_task ex_env trainer_raises ex_inputs ex_settings ex_outputs ex_proc"
  have h: "(fst (hd (trainer_calls ?R)), snd (hd (trainer_calls ?R))) \<in> set (trainer_calls ?R)"
    by (simp add: ex_env_def solid_def ex_inputs_def at_path_def ex_outputs_def ex_settings_def
          ex_proc_def trainer_raises_def run_defs)
  note c = result_after_trainer_call [OF h]
  from arg_cong [OF conjunct1 [OF c], of length]
  have l: "length (trainer_calls ?R) = 1" by simp
  from conjunct2 [OF c]
  have r: "result_of ?R = Inl (Raised ''out of memory'')" by (simp add: trainer_raises_def)
  from h l r show ?thesis by blast
qed


section \<open>The output streams and the log handler\<close>

text \<open>
  C4.  On every exit path of the invocation (the handler cannot be attached, the
  preparation raises, the trainer raises, the trainer returns) the bindings of
  \<open>sys.stdout\<close> and \<open>sys.stderr\<close> are the ones the process had on entry, whatever the
  trainer did to them.
\<close>
theorem streams_restored:
  "sys_stdout (state_after (run_my_task e t inputs settings outputs st)) = sys_stdout st \<and>
   sys_stderr (state_after (run_my_task e t inputs settings outputs st)) = sys_stderr st"
  by (auto simp: run_my_task_def state_after_def Let_def split: sum.splits prod.splits)

text \<open>
  C5 at a logger without handlers and a log file that can be opened: the invocation
  returns \<open>True\<close> and the logger keeps the file handler, since the \<open>finally\<close> clause
  puts back the two streams and nothing else.
\<close>
theorem log_handler_left_attached:
  "handlers ex_proc = [] \<and>
   result_of (run_my_task ex_env trainer_ok ex_inputs ex_settings ex_outputs ex_proc)
     = Inr True \<and>
   handlers (state_after (run_my_task ex_env trainer_ok ex_inputs ex_settings ex_outputs ex_proc))
     = [FileHandler ''/tmp/train.log'' ''%(asctime)s - %(name)s - %(message)s'']"
  by (simp add: ex_env_def solid_def ex_inputs_def at_path_def ex_outputs_def ex_settings_def
        ex_proc_def trainer_ok_def run_defs log_format_def)

text \<open>
  With a log file that cannot be opened the invocation stops before the \<open>try\<close>: the
  result is the \<open>OSError\<close>, and the trainer was not called.
\<close>
theorem unwritable_log_counterexample:
  "run_my_task ex_env trainer_ok ex_inputs ex_settings ex_outputs_rolog ex_proc
     = (Inl (OSError ''/ro/train.log''), ex_proc, [])"
  by (simp add: ex_env_def solid_def ex_inputs_def at_path_def ex_outputs_rolog_def
        ex_settings_def ex_proc_def trainer_ok_def run_defs)

text \<open>
  C8, amended.  When the first \<open>'Log File'\<close> resource names a path that cannot be opened,
  the invocation raises the \<open>OSError\<close> of the handler's constructor; the process state is
  untouched and the trainer is not called.
\<close>
theorem log_open_failure_aborts:
  assumes "resource_path outputs ''Log File'' = Inr p" and "\<not> can_open e p"
  shows "run_my_task e t inputs settings outputs st = (Inl (OSError p), st, [])"
proof -
  from assms(1) obtain lf r where
    l: "dict_get outputs ''Log File'' = Inr lf" and f: "first lf = Inr r" and
    d: "dict_get r ''resource_path'' = Inr p"
    by (auto simp: resource_path_def then_do_Inr_iff)
  from f have "0 < length lf" by (cases lf) simp_all
  with l f d assms(2) have "attach_log_handler e outputs st = Inl (OSError p)"
    by (simp add: attach_log_handler_def then_do_def)
  then show ?thesis by (rule run_attach_failed)
qed

theorem log_open_failure_aborts_witness:
  "resource_path ex_outputs_rolog ''Log File'' = Inr ''/ro/train.log'' \<and>
   \<not> can_open ex_env ''/ro/train.log'' \<and>
   run_my_task ex_env trainer_failed ex_inputs_staff ex_settings ex_outputs_rolog ex_proc
     = (Inl (OSError ''/ro/train.log''), ex_proc, [])"
proof -
  have h1: "resource_path ex_outputs_rolog ''Log File'' = Inr ''/ro/train.log''"
    by (simp add: ex_env_def solid_def ex_inputs_staff_def ex_inputs_def at_path_def
          ex_outputs_rolog_def ex_settings_def ex_proc_def trainer_failed_def resource_path_def
          dict_get_def then_do_def)
  have h2: "\<not> can_open ex_env ''/ro/train.log''"
    by (simp add: ex_env_def)
  from log_open_failure_aborts [OF h1 h2] h1 h2 show ?thesis by simp
qed

text \<open>
  C10.  With an empty \<open>'Log File'\<close> list no handler is attached, and, when the rest of the
  preparation succeeds, the trainer is called once, in a process whose handler list is
  the one on entry and whose two streams are the logging proxy; what the trainer does
  there decides the result of the invocation and the handlers it leaves.
\<close>

theorem empty_log_file_list:
  assumes "dict_get outputs ''Log File'' = Inr []"
      and "prepare_call e inputs settings outputs = Inr args"
  shows "attach_log_handler e outputs st = Inr st \<and>
         (\<exists>sc. trainer_calls (run_my_task e t inputs settings outputs st) = [(args, sc)] \<and>
               handlers sc = handlers st \<and>
               sys_stdout sc = LoggingProxy (CELERY_REDIRECT_STDOUTS_LEVEL e) \<and>
               sys_stderr sc = LoggingProxy (CELERY_REDIRECT_STDOUTS_LEVEL e) \<and>
               result_of (run_my_task e t inputs settings outputs st) =
                 (case fst (t args sc) of Inl err \<Rightarrow> Inl err | Inr status \<Rightarrow> Inr True) \<and>
               handlers (state_after (run_my_task e t inputs settings outputs st)) =
                 handlers (snd (t args sc)))"
proof -
  let ?sc = "redirect_stdouts_to_logger (CELERY_REDIRECT_STDOUTS_LEVEL e) st"
  from assms(1) have a: "attach_log_handler e outputs st = Inr st"
    by (simp add: attach_log_handler_def then_do_def)
  have s: "handlers (state_after (run_my_task e t inputs settings outputs st)) =
           handlers (snd (t args ?sc))"
    using a assms(2)
    by (auto simp: run_my_task_def task_body_def state_after_def print_line_def Let_def
             split: sum.splits prod.splits)
  from run_called [OF a assms(2), of t] a s show ?thesis
    by (simp add: redirect_stdouts_to_logger_def)
qed

theorem empty_log_file_list_witness:
  "dict_get ex_outputs_nolog ''Log File'' = Inr [] \<and>
   map (handlers \<circ> snd) (trainer_calls
      (run_my_task ex_env trainer_raises ex_inputs ex_settings ex_outputs_nolog ex_proc))
     = [[]] \<and>
   map (sys_stdout \<circ> snd) (trainer_calls
      (run_my_task ex_env trainer_raises ex_inputs ex_settings ex_outputs_nolog ex_proc))
     = [LoggingProxy ''WARNING''] \<and>
   result_of (run_my_task ex_env trainer_raises ex_inputs ex_settings ex_outputs_nolog ex_proc)
     = Inl (Raised ''out of memory'')"
proof -
  let ?a = "projr (prepare_call ex_env ex_inputs ex_settings ex_outputs_nolog)"
  have h1: "dict_get ex_outputs_nolog ''Log File'' = Inr []"
    by (simp add: ex_outputs_nolog_def at_path_def dict_get_def)
  have h2: "prepare_call ex_env ex_inputs ex_settings ex_outputs_nolog = Inr ?a"
    by (simp add: ex_env_def solid_def ex_inputs_def at_path_def ex_settings_def
          ex_outputs_nolog_def run_defs)
  from empty_log_file_list [OF h1 h2, of ex_proc trainer_raises] h1 show ?thesis
    by (auto simp: ex_env_def ex_proc_def trainer_raises_def)
qed

end
